theory Spec2Isabelle
  imports Main "HOL-Library.Word" "HOL-Library.Char_ord" "HOL-Library.List_Lexorder"
    "HOL-Library.Sublist" "HOL-Library.AList"
begin

section \<open>Text\<close>

text \<open>
  A Python \<open>str\<close> is modelled as a \<open>string\<close>: one \<open>char\<close> per code point, so
  \<open>length\<close> and \<open>take\<close> count what Python's \<open>len\<close> and slices count. The
  model covers the code points 0 to 255.
\<close>

definition py_isspace :: "char \<Rightarrow> bool" where
  \<comment> \<open>\<open>str.isspace\<close> on one character: TAB, LF, VT, FF, CR, the separators
      0x1C to 0x1F, the space, NEL (0x85) and the no-break space (0xA0).\<close>
  "py_isspace c =
     (let n = (of_char c :: nat)
      in (9 \<le> n \<and> n \<le> 13) \<or> (28 \<le> n \<and> n \<le> 32) \<or> n = 133 \<or> n = 160)"

definition py_strip :: "string \<Rightarrow> string" where
  \<comment> \<open>\<open>s.strip()\<close>: leading and trailing whitespace removed.\<close>
  "py_strip s = rev (dropWhile py_isspace (rev (dropWhile py_isspace s)))"

fun split_acc :: "char \<Rightarrow> string \<Rightarrow> string \<Rightarrow> string list" where
  "split_acc d cur [] = [rev cur]"
| "split_acc d cur (c # cs) =
     (if c = d then rev cur # split_acc d [] cs else split_acc d (c # cur) cs)"

definition py_split :: "char \<Rightarrow> string \<Rightarrow> string list" where
  \<comment> \<open>\<open>s.split(d)\<close> for a one-character separator: every occurrence splits, so
      the result has one more piece than \<open>s\<close> has separators.\<close>
  "py_split d s = split_acc d [] s"

definition newline :: char where
  "newline = CHR 0x0A"

fun intercalate :: "'a list \<Rightarrow> 'a list list \<Rightarrow> 'a list" where
  \<comment> \<open>\<open>sep.join(parts)\<close>\<close>
  "intercalate sep [] = []"
| "intercalate sep [x] = x"
| "intercalate sep (x # y # ys) = x @ sep @ intercalate sep (y # ys)"

definition digit_char :: "nat \<Rightarrow> char" where
  "digit_char d = char_of (48 + d)"

fun dec_nat :: "nat \<Rightarrow> string" where
  "dec_nat n = (if n < 10 then [digit_char n] else dec_nat (n div 10) @ [digit_char (n mod 10)])"

declare dec_nat.simps [simp del]

definition dec_int :: "int \<Rightarrow> string" where
  \<comment> \<open>\<open>str(i)\<close> of an integer\<close>
  "dec_int i = (if i < 0 then CHR ''-'' # dec_nat (nat (- i)) else dec_nat (nat i))"

definition hex_char :: "nat \<Rightarrow> char" where
  "hex_char d = (if d < 10 then char_of (48 + d) else char_of (87 + d))"

definition hex2 :: "char \<Rightarrow> string" where
  \<comment> \<open>two lower-case hexadecimal digits\<close>
  "hex2 c = (let n = (of_char c :: nat) in [hex_char (n div 16), hex_char (n mod 16)])"

section \<open>Python values\<close>

text \<open>
  The values the program handles are the ones \<open>json.loads\<close> produces and
  \<open>json.dump\<close> accepts: \<open>None\<close>, booleans, integers, floats, strings, lists and
  dictionaries with string keys. A dictionary is the list of its items in insertion
  order. A float is its IEEE 754 bit pattern; its decimal notation is left to the
  library (\<open>float_repr\<close> below).
\<close>

datatype json =
    JNull
  | JBool bool
  | JInt int
  | JFloat "64 word"
  | JStr string
  | JArr "json list"
  | JObj "(string \<times> json) list"

datatype pyexc =
    OSError string
  | FileNotFoundError
  | NotADirectoryError
  | IsADirectoryError
  | ValueError
  | RecursionError
  | JSONDecodeError
  | AttributeError
  | TypeError
  | KeyError string

definition nan_bits :: "64 word" where
  "nan_bits = 0x7FF8000000000000"

definition inf_bits :: "64 word" where
  "inf_bits = 0x7FF0000000000000"

definition neg_inf_bits :: "64 word" where
  "neg_inf_bits = 0xFFF0000000000000"

definition float_is_nan :: "64 word \<Rightarrow> bool" where
  "float_is_nan w = (take_bit 63 w > inf_bits)"

definition float_is_zero :: "64 word \<Rightarrow> bool" where
  "float_is_zero w = (take_bit 63 w = 0)"

subsection \<open>Dictionary access\<close>

definition dict_get :: "(string \<times> json) list \<Rightarrow> string \<Rightarrow> json \<Rightarrow> json" where
  \<comment> \<open>\<open>d.get(k, default)\<close>\<close>
  "dict_get d k dflt = (case map_of d k of Some v \<Rightarrow> v | None \<Rightarrow> dflt)"

definition dict_has :: "(string \<times> json) list \<Rightarrow> string \<Rightarrow> bool" where
  \<comment> \<open>\<open>k in d\<close>\<close>
  "dict_has d k = (map_of d k \<noteq> None)"

definition dict_set :: "(string \<times> json) list \<Rightarrow> string \<Rightarrow> json \<Rightarrow> (string \<times> json) list" where
  \<comment> \<open>\<open>d[k] = v\<close>: a new key goes last, a present key keeps its place.\<close>
  "dict_set d k v =
     (if dict_has d k then map (\<lambda>(k', v'). if k' = k then (k', v) else (k', v')) d
      else d @ [(k, v)])"

definition py_dict :: "(string \<times> json) list \<Rightarrow> (string \<times> json) list" where
  \<comment> \<open>\<open>dict(pairs)\<close>\<close>
  "py_dict pairs = foldl (\<lambda>d (k, v). dict_set d k v) [] pairs"

definition py_bool :: "json \<Rightarrow> bool" where
  \<comment> \<open>truth value of a Python value, as \<open>if x:\<close> tests it\<close>
  "py_bool v =
     (case v of
        JNull \<Rightarrow> False
      | JBool b \<Rightarrow> b
      | JInt i \<Rightarrow> i \<noteq> 0
      | JFloat w \<Rightarrow> \<not> float_is_zero w
      | JStr s \<Rightarrow> s \<noteq> []
      | JArr xs \<Rightarrow> xs \<noteq> []
      | JObj d \<Rightarrow> d \<noteq> [])"

section \<open>The JSON decoder of the standard library\<close>

text \<open>
  \<open>json.loads\<close> is not code of the repository; the program is modelled over any
  decoder (the \<open>json_loads\<close> field of \<open>pylib\<close> below). \<open>py_json_loads\<close> is a model of
  the decoder of CPython 3.11, used where a statement needs a concrete one. The
  decoder has three kinds of outcome: it returns a value, it raises
  \<open>JSONDecodeError\<close> for a text that is not JSON, or it raises another exception:
  \<open>ValueError\<close> for an integer literal of more than 4300 digits, \<open>RecursionError\<close>
  for containers nested deeper than the interpreter allows. The exception raised is
  the one of the first place in the text, read from the left, where the decoder
  fails.

  The model reads the text into tokens and the tokens into a value with a stack of
  open containers. JSON whitespace is the space, TAB, LF and CR only. The conversion
  of a decimal float literal into a float is the parameter \<open>pf\<close> (\<open>None\<close> for a
  literal it does not cover), the nesting depth the interpreter allows is the
  parameter \<open>depth\<close>. A string with a code point above 255 is a value this model of
  text cannot hold: where the decoder returns a value with such a string, or with a
  float that \<open>pf\<close> does not cover, \<open>py_json_loads\<close> is \<open>None\<close> and says nothing about
  the value.
\<close>

datatype token =
    TLBrace | TRBrace | TLBrack | TRBrack | TComma | TColon
  | TString string
  | TAtom json
  | TBigInt nat
  | TOutsideString
  | TOutsideNumber
  | TBad

definition json_ws :: "char \<Rightarrow> bool" where
  "json_ws c = (c = CHR '' '' \<or> c = CHR 0x09 \<or> c = CHR 0x0A \<or> c = CHR 0x0D)"

definition is_digit :: "char \<Rightarrow> bool" where
  "is_digit c = (let n = (of_char c :: nat) in 48 \<le> n \<and> n \<le> 57)"

definition digit_val :: "char \<Rightarrow> nat" where
  "digit_val c = of_char c - 48"

definition nat_of_digits :: "string \<Rightarrow> nat" where
  "nat_of_digits ds = foldl (\<lambda>a c. 10 * a + digit_val c) 0 ds"

definition int_max_str_digits :: nat where
  \<comment> \<open>\<open>sys.get_int_max_str_digits()\<close>, by default\<close>
  "int_max_str_digits = 4300"

definition hex_val :: "char \<Rightarrow> nat option" where
  "hex_val c =
     (let n = (of_char c :: nat)
      in if 48 \<le> n \<and> n \<le> 57 then Some (n - 48)
         else if 97 \<le> n \<and> n \<le> 102 then Some (n - 87)
         else if 65 \<le> n \<and> n \<le> 70 then Some (n - 55)
         else None)"

definition hex4 :: "char \<Rightarrow> char \<Rightarrow> char \<Rightarrow> char \<Rightarrow> nat option" where
  "hex4 a b c d =
     (case (hex_val a, hex_val b, hex_val c, hex_val d) of
        (Some w, Some x, Some y, Some z) \<Rightarrow> Some (((w * 16 + x) * 16 + y) * 16 + z)
      | _ \<Rightarrow> None)"

definition unescape :: "char \<Rightarrow> char option" where
  \<comment> \<open>the character after a backslash, other than \<open>u\<close>\<close>
  "unescape e =
     (if e = CHR 0x22 then Some (CHR 0x22)
      else if e = CHR 0x5C then Some (CHR 0x5C)
      else if e = CHR ''/'' then Some (CHR ''/'')
      else if e = CHR ''b'' then Some (CHR 0x08)
      else if e = CHR ''f'' then Some (CHR 0x0C)
      else if e = CHR ''n'' then Some (CHR 0x0A)
      else if e = CHR ''r'' then Some (CHR 0x0D)
      else if e = CHR ''t'' then Some (CHR 0x09)
      else None)"

definition push_char ::
  "char \<Rightarrow> (string option \<times> string) option \<Rightarrow> (string option \<times> string) option" where
  "push_char c r =
     (case r of None \<Rightarrow> None | Some (s, rest) \<Rightarrow> Some (map_option ((#) c) s, rest))"

definition push_outside ::
  "(string option \<times> string) option \<Rightarrow> (string option \<times> string) option" where
  \<comment> \<open>a code point above 255: the string is one the model cannot hold\<close>
  "push_outside r = (case r of None \<Rightarrow> None | Some (s, rest) \<Rightarrow> Some (None, rest))"

fun scan_string :: "string \<Rightarrow> (string option \<times> string) option" where
  \<comment> \<open>The text after an opening quote: the decoded string (\<open>None\<close> when it has a
      code point above 255) and the text after the closing quote; \<open>None\<close> when the
      text is no string. Control characters must be escaped.\<close>
  "scan_string [] = None"
| "scan_string (c # cs) =
     (if c = CHR 0x22 then Some (Some [], cs)
      else if c = CHR 0x5C then
        (case cs of
           [] \<Rightarrow> None
         | e # es \<Rightarrow>
             if e = CHR ''u'' then
               (case es of
                  h1 # h2 # h3 # h4 # r \<Rightarrow>
                    (case hex4 h1 h2 h3 h4 of
                       None \<Rightarrow> None
                     | Some n \<Rightarrow> if n < 256 then push_char (char_of n) (scan_string r)
                                else push_outside (scan_string r))
                | _ \<Rightarrow> None)
             else
               (case unescape e of
                  None \<Rightarrow> None
                | Some ch \<Rightarrow> push_char ch (scan_string es)))
      else if (of_char c :: nat) < 32 then None
      else push_char c (scan_string cs))"

definition number_sign :: "string \<Rightarrow> string" where
  "number_sign cs = (case cs of [] \<Rightarrow> [] | c # _ \<Rightarrow> if c = CHR ''-'' then [c] else [])"

definition int_part :: "string \<Rightarrow> string" where
  \<comment> \<open>\<open>0|[1-9][0-9]*\<close>: a leading zero stands alone\<close>
  "int_part cs =
     (case takeWhile is_digit cs of [] \<Rightarrow> [] | d # ds \<Rightarrow> if d = CHR ''0'' then [d] else d # ds)"

definition frac_part :: "string \<Rightarrow> string" where
  \<comment> \<open>\<open>(.[0-9]+)?\<close>\<close>
  "frac_part cs =
     (case cs of
        [] \<Rightarrow> []
      | p # r \<Rightarrow> if p = CHR ''.'' \<and> takeWhile is_digit r \<noteq> []
                 then p # takeWhile is_digit r else [])"

definition exp_sign :: "string \<Rightarrow> string" where
  "exp_sign cs =
     (case cs of [] \<Rightarrow> [] | s # _ \<Rightarrow> if s = CHR ''+'' \<or> s = CHR ''-'' then [s] else [])"

definition exp_part :: "string \<Rightarrow> string" where
  \<comment> \<open>\<open>([eE][-+]?[0-9]+)?\<close>\<close>
  "exp_part cs =
     (case cs of
        [] \<Rightarrow> []
      | e # r \<Rightarrow>
          if e = CHR ''e'' \<or> e = CHR ''E'' then
            (let sg = exp_sign r; eds = takeWhile is_digit (drop (length sg) r)
             in if eds = [] then [] else e # sg @ eds)
          else [])"

definition int_token :: "string \<Rightarrow> string \<Rightarrow> token" where
  \<comment> \<open>\<open>int(sign + digits)\<close>: more than 4300 digits are refused\<close>
  "int_token sign ip =
     (if length ip > int_max_str_digits then TBigInt (length ip)
      else TAtom (JInt (if sign = [] then int (nat_of_digits ip) else - int (nat_of_digits ip))))"

definition float_token :: "(string \<Rightarrow> 64 word option) \<Rightarrow> string \<Rightarrow> token" where
  "float_token pf literal =
     (case pf literal of Some w \<Rightarrow> TAtom (JFloat w) | None \<Rightarrow> TOutsideNumber)"

definition scan_number :: "(string \<Rightarrow> 64 word option) \<Rightarrow> string \<Rightarrow> (token \<times> string) option" where
  \<comment> \<open>The longest prefix \<open>-?(0|[1-9][0-9]*)(.[0-9]+)?([eE][-+]?[0-9]+)?\<close>: an
      integer when it has neither fraction nor exponent, a float otherwise.\<close>
  "scan_number pf cs =
     (let sign = number_sign cs;
          r0 = drop (length sign) cs;
          ip = int_part r0;
          r1 = drop (length ip) r0;
          fr = frac_part r1;
          r2 = drop (length fr) r1;
          ex = exp_part r2;
          r3 = drop (length ex) r2
      in if ip = [] then None
         else if fr = [] \<and> ex = [] then Some (int_token sign ip, r3)
         else Some (float_token pf (sign @ ip @ fr @ ex), r3))"

definition string_token :: "string option \<Rightarrow> token" where
  "string_token s = (case s of Some t \<Rightarrow> TString t | None \<Rightarrow> TOutsideString)"

lemma push_char_Some:
  "push_char c r = Some (s, rest) \<Longrightarrow> \<exists>s'. r = Some (s', rest)"
  by (auto simp: push_char_def split: option.splits)

lemma push_outside_Some:
  "push_outside r = Some (s, rest) \<Longrightarrow> \<exists>s'. r = Some (s', rest)"
  by (auto simp: push_outside_def split: option.splits)

lemma scan_string_shorter:
  "scan_string cs = Some (s, rest) \<Longrightarrow> length rest < length cs"
proof (induction "length cs" arbitrary: cs s rest rule: less_induct)
  case less
  note IH = less.hyps
  show ?case
  proof (cases cs)
    case Nil
    with less.prems show ?thesis by simp
  next
    case (Cons c cs')
    note cs = Cons
    show ?thesis
    proof (cases "c = CHR 0x22")
      case True
      with less.prems cs show ?thesis by simp
    next
      case notq: False
      show ?thesis
      proof (cases "c = CHR 0x5C")
        case bs: True
        show ?thesis
        proof (cases cs')
          case Nil
          with bs notq less.prems cs show ?thesis by simp
        next
          case (Cons e es)
          note cs' = Cons
          show ?thesis
          proof (cases "e = CHR ''u''")
            case True
            with bs notq less.prems cs cs' obtain h1 h2 h3 h4 r s' where
              es: "es = h1 # h2 # h3 # h4 # r" and r: "scan_string r = Some (s', rest)"
              by (auto dest: push_char_Some push_outside_Some
                  split: list.splits option.splits if_splits)
            have "length r < length cs" by (simp add: cs cs' es)
            from IH [OF this r] show ?thesis by (simp add: cs cs' es)
          next
            case False
            with bs notq less.prems cs cs' obtain s' where
              r: "scan_string es = Some (s', rest)"
              by (auto dest: push_char_Some split: option.splits)
            have "length es < length cs" by (simp add: cs cs')
            from IH [OF this r] show ?thesis by (simp add: cs cs')
          qed
        qed
      next
        case False
        with notq less.prems cs obtain s' where
          r: "scan_string cs' = Some (s', rest)"
          by (auto dest: push_char_Some split: if_splits)
        have "length cs' < length cs" by (simp add: cs)
        from IH [OF this r] show ?thesis by (simp add: cs)
      qed
    qed
  qed
qed

lemma int_part_length: "length (int_part cs) \<le> length cs"
proof -
  have "length (int_part cs) \<le> length (takeWhile is_digit cs)"
    by (simp add: int_part_def split: list.splits)
  also have "\<dots> \<le> length cs" by (rule length_takeWhile_le)
  finally show ?thesis .
qed

lemma scan_number_shorter:
  assumes "scan_number pf cs = Some (v, rest)"
  shows "length rest < length cs"
proof -
  define r0 where "r0 = drop (length (number_sign cs)) cs"
  define ip where "ip = int_part r0"
  define r1 where "r1 = drop (length ip) r0"
  define r2 where "r2 = drop (length (frac_part r1)) r1"
  define r3 where "r3 = drop (length (exp_part r2)) r2"
  from assms have ne: "ip \<noteq> []" and rest: "rest = r3"
    unfolding scan_number_def Let_def r0_def ip_def r1_def r2_def r3_def
    by (simp_all split: if_splits)
  have "length ip \<le> length r0" unfolding ip_def by (rule int_part_length)
  with ne have "length r1 < length r0" unfolding r1_def by (cases ip) auto
  moreover have "length r3 \<le> length r1" unfolding r3_def r2_def by simp
  moreover have "length r0 \<le> length cs" unfolding r0_def by simp
  ultimately show ?thesis unfolding rest by linarith
qed

function tokenize :: "(string \<Rightarrow> 64 word option) \<Rightarrow> string \<Rightarrow> token list" where
  \<comment> \<open>The tokens of a text, up to the first place where no token starts: \<open>TBad\<close>
      stands there and ends the list.\<close>
  "tokenize pf [] = []"
| "tokenize pf (c # cs) =
     (if json_ws c then tokenize pf cs
      else if c = CHR 0x22 then
        (case scan_string cs of
           None \<Rightarrow> [TBad]
         | Some (s, rest) \<Rightarrow> string_token s # tokenize pf rest)
      else if c = CHR ''{'' then TLBrace # tokenize pf cs
      else if c = CHR ''}'' then TRBrace # tokenize pf cs
      else if c = CHR ''['' then TLBrack # tokenize pf cs
      else if c = CHR '']'' then TRBrack # tokenize pf cs
      else if c = CHR '','' then TComma # tokenize pf cs
      else if c = CHR '':'' then TColon # tokenize pf cs
      else if prefix ''null'' (c # cs) then TAtom JNull # tokenize pf (drop 3 cs)
      else if prefix ''true'' (c # cs) then TAtom (JBool True) # tokenize pf (drop 3 cs)
      else if prefix ''false'' (c # cs) then TAtom (JBool False) # tokenize pf (drop 4 cs)
      else
        (case scan_number pf (c # cs) of
           Some (t, rest) \<Rightarrow> t # tokenize pf rest
         | None \<Rightarrow>
             if prefix ''NaN'' (c # cs)
             then TAtom (JFloat nan_bits) # tokenize pf (drop 2 cs)
             else if prefix ''Infinity'' (c # cs)
             then TAtom (JFloat inf_bits) # tokenize pf (drop 7 cs)
             else if prefix ''-Infinity'' (c # cs)
             then TAtom (JFloat neg_inf_bits) # tokenize pf (drop 8 cs)
             else [TBad]))"
  by pat_completeness auto
termination
  by (relation "measure (\<lambda>(pf, cs). length cs)")
    (auto dest: scan_string_shorter scan_number_shorter)

datatype frame =
    FArr "json list"
  | FObj "(string \<times> json) list"
  | FKey string

datatype expect =
    XValue
  | XValueOrClose
  | XKeyOrClose
  | XKey
  | XColon
  | XCommaOrClose
  | XEnd json

definition nesting :: "frame list \<Rightarrow> nat" where
  \<comment> \<open>the number of open containers\<close>
  "nesting st = length (filter (\<lambda>f. case f of FKey k \<Rightarrow> False | _ \<Rightarrow> True) st)"

fun reduce :: "json \<Rightarrow> frame list \<Rightarrow> pyexc + expect \<times> frame list" where
  \<comment> \<open>A value is complete: it is the result, the next element of the open list, or
      the value of the pending key of the open dictionary.\<close>
  "reduce v [] = Inr (XEnd v, [])"
| "reduce v (FArr xs # st) = Inr (XCommaOrClose, FArr (v # xs) # st)"
| "reduce v (FKey k # FObj ps # st) = Inr (XCommaOrClose, FObj ((k, v) # ps) # st)"
| "reduce v _ = Inl JSONDecodeError"

fun parse_value :: "nat \<Rightarrow> token \<Rightarrow> frame list \<Rightarrow> pyexc + expect \<times> frame list" where
  \<comment> \<open>A token where a value is expected. An integer literal is converted here, and a
      container is entered here, so these are the places of \<open>ValueError\<close> and
      \<open>RecursionError\<close>. For a value the model cannot hold, a value of the same kind
      stands in.\<close>
  "parse_value depth (TAtom v) st = reduce v st"
| "parse_value depth (TString s) st = reduce (JStr s) st"
| "parse_value depth TOutsideString st = reduce (JStr []) st"
| "parse_value depth TOutsideNumber st = reduce (JFloat 0) st"
| "parse_value depth (TBigInt n) st = Inl ValueError"
| "parse_value depth TLBrack st =
     (if nesting st < depth then Inr (XValueOrClose, FArr [] # st) else Inl RecursionError)"
| "parse_value depth TLBrace st =
     (if nesting st < depth then Inr (XKeyOrClose, FObj [] # st) else Inl RecursionError)"
| "parse_value depth t st = Inl JSONDecodeError"

fun parse_key :: "token \<Rightarrow> frame list \<Rightarrow> pyexc + expect \<times> frame list" where
  "parse_key (TString k) st = Inr (XColon, FKey k # st)"
| "parse_key TOutsideString st = Inr (XColon, FKey [] # st)"
| "parse_key t st = Inl JSONDecodeError"

fun parse_step :: "nat \<Rightarrow> expect \<times> frame list \<Rightarrow> token \<Rightarrow> pyexc + expect \<times> frame list" where
  "parse_step depth (XValue, st) t = parse_value depth t st"
| "parse_step depth (XValueOrClose, FArr xs # st) TRBrack = reduce (JArr (rev xs)) st"
| "parse_step depth (XValueOrClose, st) t = parse_value depth t st"
| "parse_step depth (XKeyOrClose, FObj ps # st) TRBrace = reduce (JObj (py_dict (rev ps))) st"
| "parse_step depth (XKeyOrClose, st) t = parse_key t st"
| "parse_step depth (XKey, st) t = parse_key t st"
| "parse_step depth (XColon, st) TColon = Inr (XValue, st)"
| "parse_step depth (XCommaOrClose, FArr xs # st) TComma = Inr (XValue, FArr xs # st)"
| "parse_step depth (XCommaOrClose, FArr xs # st) TRBrack = reduce (JArr (rev xs)) st"
| "parse_step depth (XCommaOrClose, FObj ps # st) TComma = Inr (XKey, FObj ps # st)"
| "parse_step depth (XCommaOrClose, FObj ps # st) TRBrace = reduce (JObj (py_dict (rev ps))) st"
| "parse_step depth s t = Inl JSONDecodeError"

fun parse_tokens :: "nat \<Rightarrow> expect \<times> frame list \<Rightarrow> token list \<Rightarrow> pyexc + json" where
  "parse_tokens depth (XEnd v, st) [] = Inr v"
| "parse_tokens depth s [] = Inl JSONDecodeError"
| "parse_tokens depth s (t # ts) =
     (case parse_step depth s t of Inl e \<Rightarrow> Inl e | Inr s' \<Rightarrow> parse_tokens depth s' ts)"

definition outside_model :: "token list \<Rightarrow> bool" where
  "outside_model ts = (TOutsideString \<in> set ts \<or> TOutsideNumber \<in> set ts)"

definition decode_tokens :: "nat \<Rightarrow> token list \<Rightarrow> (pyexc + json) option" where
  "decode_tokens depth ts =
     (case parse_tokens depth (XValue, []) ts of
        Inl e \<Rightarrow> Some (Inl e)
      | Inr v \<Rightarrow> if outside_model ts then None else Some (Inr v))"

definition py_json_loads ::
  "(string \<Rightarrow> 64 word option) \<Rightarrow> nat \<Rightarrow> string \<Rightarrow> (pyexc + json) option" where
  \<comment> \<open>\<open>json.loads(s)\<close>: the exception raised or the value returned; \<open>None\<close> when
      a value is returned that the model cannot hold.\<close>
  "py_json_loads pf depth s = decode_tokens depth (tokenize pf s)"

section \<open>The JSON encoder and the text of a value\<close>

text \<open>
  \<open>py_json_dumps\<close> models what \<open>json.dump(obj, f, indent=2)\<close> writes when it does
  not raise: items one per line, indented by two spaces per level, \<open>,\<close> between
  items and \<open>: \<close> after a key, empty containers as \<open>[]\<close> and \<open>{}\<close>, every character
  outside printable ASCII escaped. \<open>py_str\<close> and \<open>py_repr\<close> model \<open>str(x)\<close> and
  \<open>repr(x)\<close>, which an f-string uses for a value it interpolates. The decimal notation
  of a finite float is the parameter \<open>fr\<close>. The values the reporter prints are values
  the decoder returned: their integers have at most 4300 digits and their containers
  nest no deeper than the decoder allows, and on such values \<open>str\<close> and \<open>repr\<close> do not
  raise.
\<close>

definition json_escape_char :: "char \<Rightarrow> string" where
  "json_escape_char c =
     (let n = (of_char c :: nat)
      in if c = CHR 0x22 then [CHR 0x5C, CHR 0x22]
         else if c = CHR 0x5C then [CHR 0x5C, CHR 0x5C]
         else if c = CHR 0x0A then [CHR 0x5C, CHR ''n'']
         else if c = CHR 0x0D then [CHR 0x5C, CHR ''r'']
         else if c = CHR 0x09 then [CHR 0x5C, CHR ''t'']
         else if c = CHR 0x08 then [CHR 0x5C, CHR ''b'']
         else if c = CHR 0x0C then [CHR 0x5C, CHR ''f'']
         else if 32 \<le> n \<and> n \<le> 126 then [c]
         else [CHR 0x5C, CHR ''u'', CHR ''0'', CHR ''0''] @ hex2 c)"

definition json_string :: "string \<Rightarrow> string" where
  "json_string s = CHR 0x22 # concat (map json_escape_char s) @ [CHR 0x22]"

definition json_float :: "(64 word \<Rightarrow> string) \<Rightarrow> 64 word \<Rightarrow> string" where
  "json_float fr w =
     (if float_is_nan w then ''NaN''
      else if w = inf_bits then ''Infinity''
      else if w = neg_inf_bits then ''-Infinity''
      else fr w)"

definition newline_indent :: "nat \<Rightarrow> string" where
  "newline_indent lvl = newline # replicate (2 * lvl) (CHR '' '')"

fun json_encode :: "(64 word \<Rightarrow> string) \<Rightarrow> nat \<Rightarrow> json \<Rightarrow> string" where
  "json_encode fr lvl JNull = ''null''"
| "json_encode fr lvl (JBool b) = (if b then ''true'' else ''false'')"
| "json_encode fr lvl (JInt i) = dec_int i"
| "json_encode fr lvl (JFloat w) = json_float fr w"
| "json_encode fr lvl (JStr s) = json_string s"
| "json_encode fr lvl (JArr xs) =
     (if xs = [] then ''[]''
      else ''['' @ newline_indent (Suc lvl)
           @ intercalate ('','' @ newline_indent (Suc lvl)) (map (json_encode fr (Suc lvl)) xs)
           @ newline_indent lvl @ '']'')"
| "json_encode fr lvl (JObj d) =
     (if d = [] then ''{}''
      else ''{'' @ newline_indent (Suc lvl)
           @ intercalate ('','' @ newline_indent (Suc lvl))
               (map (\<lambda>kv. json_string (fst kv) @ '': '' @ json_encode fr (Suc lvl) (snd kv)) d)
           @ newline_indent lvl @ ''}'')"

definition py_json_dumps :: "(64 word \<Rightarrow> string) \<Rightarrow> json \<Rightarrow> string" where
  "py_json_dumps fr v = json_encode fr 0 v"

definition repr_char :: "char \<Rightarrow> char \<Rightarrow> string" where
  \<comment> \<open>one character of a string inside the quotes \<open>q\<close> of its \<open>repr\<close>\<close>
  "repr_char q c =
     (let n = (of_char c :: nat)
      in if c = q \<or> c = CHR 0x5C then [CHR 0x5C, c]
         else if c = CHR 0x09 then [CHR 0x5C, CHR ''t'']
         else if c = CHR 0x0A then [CHR 0x5C, CHR ''n'']
         else if c = CHR 0x0D then [CHR 0x5C, CHR ''r'']
         else if n < 32 \<or> n = 127 then [CHR 0x5C, CHR ''x''] @ hex2 c
         else if n < 127 then [c]
         else if n \<le> 160 \<or> n = 173 then [CHR 0x5C, CHR ''x''] @ hex2 c
         else [c])"

definition repr_str :: "string \<Rightarrow> string" where
  \<comment> \<open>single quotes, unless the string has a single quote and no double quote\<close>
  "repr_str s =
     (let q = (if CHR 0x27 \<in> set s \<and> CHR 0x22 \<notin> set s then CHR 0x22 else CHR 0x27)
      in q # concat (map (repr_char q) s) @ [q])"

fun py_repr :: "(64 word \<Rightarrow> string) \<Rightarrow> json \<Rightarrow> string" where
  "py_repr fr JNull = ''None''"
| "py_repr fr (JBool b) = (if b then ''True'' else ''False'')"
| "py_repr fr (JInt i) = dec_int i"
| "py_repr fr (JFloat w) = fr w"
| "py_repr fr (JStr s) = repr_str s"
| "py_repr fr (JArr xs) = ''['' @ intercalate '', '' (map (py_repr fr) xs) @ '']''"
| "py_repr fr (JObj d) =
     ''{'' @ intercalate '', '' (map (\<lambda>kv. repr_str (fst kv) @ '': '' @ py_repr fr (snd kv)) d)
     @ ''}''"

definition py_str :: "(64 word \<Rightarrow> string) \<Rightarrow> json \<Rightarrow> string" where
  \<comment> \<open>\<open>str(x)\<close>: a string is its own text, every other value its \<open>repr\<close>\<close>
  "py_str fr v = (case v of JStr s \<Rightarrow> s | _ \<Rightarrow> py_repr fr v)"

section \<open>The library the program runs on\<close>

text \<open>
  The program is modelled over the library functions it calls: the JSON decoder
  (the value returned or the exception raised), the encoder with \<open>indent=2\<close> (the
  text written to the file and the exception raised, if any: \<open>json.dump\<close> raises
  \<open>ValueError\<close> for an integer of more than 4300 digits and \<open>RecursionError\<close> for
  containers nested too deep, after it has written a part of the text), the decimal
  notation of a float and the text \<open>str(e)\<close> of an exception. \<open>print\<close> is taken to
  succeed.

  \<open>reference_lib\<close> is the instance built from the models above. Its decoder is
  \<open>py_json_loads\<close> without floats. The nesting depth the interpreter allows depends
  on the call stack; with the default recursion limit and fewer than a hundred
  frames in use it lies between 900 and 995, and the reference decoder raises
  \<open>RecursionError\<close> where every depth in this range does. Its encoder writes the
  text of \<open>py_json_dumps\<close> for a value within these limits. Where the models say
  nothing (a value with a float literal or with a code point above 255, a nesting
  depth for which the range gives different outcomes, a value the encoder may refuse,
  the notation of a float other than zero) the reference library is left
  unspecified. An \<open>OSError\<close> carries its text; the other exceptions are rendered by
  their class names.
\<close>

record pylib =
  json_loads :: "string \<Rightarrow> pyexc + json"
  json_dump :: "json \<Rightarrow> string \<times> pyexc option"
  float_repr :: "64 word \<Rightarrow> string"
  exc_str :: "pyexc \<Rightarrow> string"

definition exc_text :: "pyexc \<Rightarrow> string" where
  "exc_text e =
     (case e of
        OSError msg \<Rightarrow> msg
      | FileNotFoundError \<Rightarrow> ''FileNotFoundError''
      | NotADirectoryError \<Rightarrow> ''NotADirectoryError''
      | IsADirectoryError \<Rightarrow> ''IsADirectoryError''
      | ValueError \<Rightarrow> ''ValueError''
      | RecursionError \<Rightarrow> ''RecursionError''
      | JSONDecodeError \<Rightarrow> ''JSONDecodeError''
      | AttributeError \<Rightarrow> ''AttributeError''
      | TypeError \<Rightarrow> ''TypeError''
      | KeyError k \<Rightarrow> repr_str k)"

definition reference_loads :: "string \<Rightarrow> pyexc + json" where
  "reference_loads s =
     (case py_json_loads (\<lambda>literal. None) 900 s of
        None \<Rightarrow> undefined
      | Some r \<Rightarrow>
          if r = Inl RecursionError
          then (if py_json_loads (\<lambda>literal. None) 995 s = Some r then r else undefined)
          else r)"

definition reference_float_repr :: "64 word \<Rightarrow> string" where
  "reference_float_repr w = (if w = 0 then ''0.0'' else undefined)"

fun within_limits :: "nat \<Rightarrow> json \<Rightarrow> bool" where
  \<comment> \<open>containers nest at most \<open>n\<close> deep and no integer has more digits than \<open>str\<close>
      converts\<close>
  "within_limits n (JInt i) = (length (dec_nat (nat \<bar>i\<bar>)) \<le> int_max_str_digits)"
| "within_limits n (JArr xs) = (0 < n \<and> list_all (within_limits (n - 1)) xs)"
| "within_limits n (JObj d) = (0 < n \<and> list_all (\<lambda>kv. within_limits (n - 1) (snd kv)) d)"
| "within_limits n v = True"

definition reference_dump :: "json \<Rightarrow> string \<times> pyexc option" where
  "reference_dump v =
     (if within_limits 900 v then (py_json_dumps reference_float_repr v, None) else undefined)"

definition dumped :: "pylib \<Rightarrow> json \<Rightarrow> string" where
  \<comment> \<open>the text \<open>json.dump\<close> writes for a value\<close>
  "dumped lib v = fst (json_dump lib v)"

definition reference_lib :: pylib where
  "reference_lib =
     \<lparr> json_loads = reference_loads,
       json_dump = reference_dump,
       float_repr = reference_float_repr,
       exc_str = exc_text \<rparr>"

section \<open>The capture runner: \<open>run_claude_command\<close>\<close>

text \<open>
  \<open>subprocess.run(cmd, capture_output=True, text=True, cwd=os.getcwd())\<close> is the
  environment: given the command line it either raises (the binary is missing, the
  operating system refuses) or returns the completed process with its exit status
  and its two output texts. An exception raised anywhere in the \<open>try\<close> block, by
  \<open>subprocess.run\<close> or by the decoder in the loop, reaches the \<open>except Exception\<close>
  clause.
\<close>

record completed_process =
  returncode :: int
  stdout :: string
  stderr :: string

type_synonym subprocess = "string list \<Rightarrow> pyexc + completed_process"

definition build_cmd :: "string \<Rightarrow> string list option \<Rightarrow> string list" where
  \<comment> \<open>\<open>if additional_args: cmd.extend(additional_args)\<close>: \<open>None\<close> and the empty list
      add nothing.\<close>
  "build_cmd prompt additional_args =
     (let cmd = [''claude'', ''-p'', prompt, ''--output-format'', ''stream-json'', ''--verbose'']
      in case additional_args of
           None \<Rightarrow> cmd
         | Some args \<Rightarrow> if args \<noteq> [] then cmd @ args else cmd)"

fun parse_stream ::
  "(string \<Rightarrow> pyexc + json) \<Rightarrow> json list \<Rightarrow> string list \<Rightarrow> pyexc + json list" where
  \<comment> \<open>The loop over the lines: \<open>messages\<close> grows by each decoded line, a blank line
      and a line that raises \<open>JSONDecodeError\<close> are passed over. The inner \<open>except\<close>
      clause names \<open>json.JSONDecodeError\<close> only: any other exception of the decoder
      leaves the loop.\<close>
  "parse_stream loads messages [] = Inr messages"
| "parse_stream loads messages (line # rest) =
     (if py_strip line \<noteq> [] then
        (case loads line of
           Inr m \<Rightarrow> parse_stream loads (messages @ [m]) rest
         | Inl e \<Rightarrow>
             if e = JSONDecodeError then parse_stream loads messages rest else Inl e)
      else parse_stream loads messages rest)"

definition run_claude_command_try :: "pylib \<Rightarrow> subprocess \<Rightarrow> string \<Rightarrow> string list option \<Rightarrow> pyexc + json" where
  \<comment> \<open>The body of the \<open>try\<close>: it raises what \<open>subprocess.run\<close> raises and what
      the loop over the lines raises.\<close>
  "run_claude_command_try lib subprocess_run prompt additional_args =
     (let cmd = build_cmd prompt additional_args
      in case subprocess_run cmd of
           Inl e \<Rightarrow> Inl e
         | Inr result \<Rightarrow>
             (case parse_stream (json_loads lib) []
                     (py_split newline (py_strip (stdout result))) of
                Inl e \<Rightarrow> Inl e
              | Inr messages \<Rightarrow>
                  Inr (JObj [(''success'', JBool (returncode result = 0)),
                             (''messages'', JArr messages),
                             (''stderr'', JStr (stderr result))])))"

definition run_claude_command :: "pylib \<Rightarrow> subprocess \<Rightarrow> string \<Rightarrow> string list option \<Rightarrow> json" where
  \<comment> \<open>\<open>except Exception as e\<close>: every exception of the body becomes the failure
      result.\<close>
  "run_claude_command lib subprocess_run prompt additional_args =
     (case run_claude_command_try lib subprocess_run prompt additional_args of
        Inr r \<Rightarrow> r
      | Inl e \<Rightarrow>
          JObj [(''success'', JBool False),
                (''error'', JStr (exc_str lib e)),
                (''messages'', JArr [])])"

subsection \<open>The lines given to the decoder\<close>

definition nonblank_lines :: "string \<Rightarrow> string list" where
  \<comment> \<open>the lines the loop of \<open>run_claude_command\<close> gives to the decoder: the lines
      of the stripped output that are not blank\<close>
  "nonblank_lines out = filter (\<lambda>l. py_strip l \<noteq> []) (py_split newline (py_strip out))"

definition decoded :: "(string \<Rightarrow> pyexc + json) \<Rightarrow> string \<Rightarrow> json option" where
  \<comment> \<open>the value of a line that decodes\<close>
  "decoded loads l = (case loads l of Inr v \<Rightarrow> Some v | Inl e \<Rightarrow> None)"

definition aborts :: "(string \<Rightarrow> pyexc + json) \<Rightarrow> string \<Rightarrow> bool" where
  \<comment> \<open>the decoder raises an exception other than \<open>JSONDecodeError\<close> on the line\<close>
  "aborts loads l = (case loads l of Inr v \<Rightarrow> False | Inl e \<Rightarrow> e \<noteq> JSONDecodeError)"

section \<open>Operations on values of unknown type\<close>

text \<open>
  The reporter reads fields of decoded JSON without checking its type first. Each
  operation raises on the types Python raises on.
\<close>

definition py_get :: "json \<Rightarrow> string \<Rightarrow> json \<Rightarrow> pyexc + json" where
  \<comment> \<open>\<open>x.get(k, default)\<close>: only a dictionary has \<open>get\<close>\<close>
  "py_get x k dflt = (case x of JObj d \<Rightarrow> Inr (dict_get d k dflt) | _ \<Rightarrow> Inl AttributeError)"

definition py_getitem :: "json \<Rightarrow> string \<Rightarrow> pyexc + json" where
  \<comment> \<open>\<open>x[k]\<close> with a string \<open>k\<close>\<close>
  "py_getitem x k =
     (case x of
        JObj d \<Rightarrow> (case map_of d k of Some v \<Rightarrow> Inr v | None \<Rightarrow> Inl (KeyError k))
      | _ \<Rightarrow> Inl TypeError)"

definition py_len :: "json \<Rightarrow> pyexc + nat" where
  "py_len x =
     (case x of
        JStr s \<Rightarrow> Inr (length s)
      | JArr xs \<Rightarrow> Inr (length xs)
      | JObj d \<Rightarrow> Inr (length d)
      | _ \<Rightarrow> Inl TypeError)"

definition py_iter :: "json \<Rightarrow> pyexc + json list" where
  \<comment> \<open>the items a \<open>for\<close> loop visits: the characters of a string, the elements of
      a list, the keys of a dictionary\<close>
  "py_iter x =
     (case x of
        JStr s \<Rightarrow> Inr (map (\<lambda>c. JStr [c]) s)
      | JArr xs \<Rightarrow> Inr xs
      | JObj d \<Rightarrow> Inr (map (\<lambda>kv. JStr (fst kv)) d)
      | _ \<Rightarrow> Inl TypeError)"

definition py_slice_to :: "nat \<Rightarrow> json \<Rightarrow> pyexc + json" where
  \<comment> \<open>\<open>x[:n]\<close>: a string and a list have slices; a dictionary raises \<open>TypeError\<close>
      (\<open>KeyError\<close> from Python 3.12 on), every other value \<open>TypeError\<close>\<close>
  "py_slice_to n x =
     (case x of
        JStr s \<Rightarrow> Inr (JStr (take n s))
      | JArr xs \<Rightarrow> Inr (JArr (take n xs))
      | _ \<Rightarrow> Inl TypeError)"

section \<open>Paths and the file system\<close>

text \<open>
  A \<open>pathlib\<close> path (POSIX flavour) is its root (empty for a relative path, \<open>/\<close> or
  \<open>//\<close>) and its parts. The file system is the working directory, the directories
  and the regular files with their contents, each under its absolute path from the
  root; the root directory always exists. There are no symbolic links, permissions
  or length limits.
\<close>

datatype pypath = PyPath (root: string) (parts: "string list")

type_synonym path = "string list"

record filesystem =
  cwd :: path
  dirs :: "path list"
  files :: "(path \<times> string) list"

definition path_of :: "string \<Rightarrow> pypath" where
  \<comment> \<open>\<open>Path(s)\<close>: empty parts and \<open>.\<close> parts are dropped\<close>
  "path_of s =
     PyPath (let n = length (takeWhile (\<lambda>c. c = CHR ''/'') s)
             in if n = 0 then [] else if n = 2 then ''//'' else ''/'')
            (filter (\<lambda>c. c \<noteq> [] \<and> c \<noteq> ''.'') (py_split (CHR ''/'') s))"

definition path_join :: "pypath \<Rightarrow> string \<Rightarrow> pypath" where
  \<comment> \<open>\<open>p / s\<close>: a rooted \<open>s\<close> replaces \<open>p\<close>\<close>
  "path_join p s =
     (let q = path_of s
      in if root q \<noteq> [] then q else PyPath (root p) (parts p @ parts q))"

definition path_str :: "pypath \<Rightarrow> string" where
  "path_str p =
     (if parts p = [] then (if root p = [] then ''.'' else root p)
      else root p @ intercalate ''/'' (parts p))"

definition path_name :: "pypath \<Rightarrow> string" where
  \<comment> \<open>\<open>p.name\<close>\<close>
  "path_name p = (case parts p of [] \<Rightarrow> [] | _ \<Rightarrow> last (parts p))"

definition is_directory :: "filesystem \<Rightarrow> path \<Rightarrow> bool" where
  "is_directory fs t = (t = [] \<or> t \<in> set (dirs fs))"

definition is_file :: "filesystem \<Rightarrow> path \<Rightarrow> bool" where
  "is_file fs t = (map_of (files fs) t \<noteq> None)"

fun walk :: "filesystem \<Rightarrow> path \<Rightarrow> string list \<Rightarrow> pyexc + path" where
  \<comment> \<open>follow directory names from \<open>cur\<close>; \<open>..\<close> is the parent, the root its own\<close>
  "walk fs cur [] = Inr cur"
| "walk fs cur (c # cs) =
     (if c = ''..'' then walk fs (butlast cur) cs
      else if is_directory fs (cur @ [c]) then walk fs (cur @ [c]) cs
      else if is_file fs (cur @ [c]) then Inl NotADirectoryError
      else Inl FileNotFoundError)"

definition locate :: "filesystem \<Rightarrow> pypath \<Rightarrow> pyexc + path" where
  \<comment> \<open>The absolute path a path names: all parts but the last must be directories.
      A NUL character in a path is refused.\<close>
  "locate fs p =
     (if CHR 0x00 \<in> set (path_str p) then Inl ValueError
      else
        let start = (if root p = [] then cwd fs else [])
        in case parts p of
             [] \<Rightarrow> Inr start
           | _ \<Rightarrow>
               (case walk fs start (butlast (parts p)) of
                  Inl e \<Rightarrow> Inl e
                | Inr parent \<Rightarrow>
                    if last (parts p) = ''..'' then Inr (butlast parent)
                    else Inr (parent @ [last (parts p)])))"

definition open_write :: "filesystem \<Rightarrow> pypath \<Rightarrow> string \<Rightarrow> pyexc + filesystem" where
  \<comment> \<open>\<open>with open(p, 'w') as f: f.write(text)\<close>: the file is created or replaced
      as a whole\<close>
  "open_write fs p text =
     (case locate fs p of
        Inl e \<Rightarrow> Inl e
      | Inr t \<Rightarrow>
          if is_directory fs t then Inl IsADirectoryError
          else Inr (fs\<lparr>files := AList.update t text (files fs)\<rparr>))"

definition read_file :: "filesystem \<Rightarrow> pypath \<Rightarrow> pyexc + string" where
  \<comment> \<open>\<open>with open(p, 'r') as f: f.read()\<close>\<close>
  "read_file fs p =
     (case locate fs p of
        Inl e \<Rightarrow> Inl e
      | Inr t \<Rightarrow>
          if is_directory fs t then Inl IsADirectoryError
          else (case map_of (files fs) t of
                  Some text \<Rightarrow> Inr text
                | None \<Rightarrow> Inl FileNotFoundError))"

definition path_exists :: "filesystem \<Rightarrow> pypath \<Rightarrow> bool" where
  \<comment> \<open>\<open>p.exists()\<close>\<close>
  "path_exists fs p =
     (case locate fs p of Inl e \<Rightarrow> False | Inr t \<Rightarrow> is_directory fs t \<or> is_file fs t)"

fun glob_match :: "string \<Rightarrow> string \<Rightarrow> bool" where
  \<comment> \<open>a name against a pattern of literal characters, \<open>*\<close> and \<open>?\<close>\<close>
  "glob_match [] [] = True"
| "glob_match [] (c # cs) = False"
| "glob_match (p # ps) [] = (p = CHR ''*'' \<and> glob_match ps [])"
| "glob_match (p # ps) (c # cs) =
     (if p = CHR ''*'' then glob_match ps (c # cs) \<or> glob_match (p # ps) cs
      else (p = CHR ''?'' \<or> p = c) \<and> glob_match ps cs)"

definition child_name :: "path \<Rightarrow> path \<Rightarrow> string option" where
  \<comment> \<open>the name of \<open>t\<close> when it lies directly in the directory \<open>d\<close>\<close>
  "child_name d t = (if t \<noteq> [] \<and> butlast t = d then Some (last t) else None)"

definition listdir :: "filesystem \<Rightarrow> path \<Rightarrow> string list" where
  \<comment> \<open>The entries of a directory. The order of a directory listing is arbitrary;
      here it is the order in which the model holds the entries.\<close>
  "listdir fs d =
     List.map_filter (\<lambda>kv. child_name d (fst kv)) (files fs)
     @ List.map_filter (child_name d) (dirs fs)"

definition path_child :: "pypath \<Rightarrow> string \<Rightarrow> pypath" where
  \<comment> \<open>the path of an entry of the directory \<open>p\<close>: its name is one more part\<close>
  "path_child p name = PyPath (root p) (parts p @ [name])"

definition path_glob :: "filesystem \<Rightarrow> pypath \<Rightarrow> string \<Rightarrow> pypath list" where
  \<comment> \<open>\<open>list(p.glob(pattern))\<close> for a pattern of one part: the entries of the
      directory \<open>p\<close> whose names match, files and directories alike, none when \<open>p\<close>
      is not a directory\<close>
  "path_glob fs p pattern =
     (case locate fs p of
        Inl e \<Rightarrow> []
      | Inr d \<Rightarrow>
          if is_directory fs d
          then map (path_child p) (filter (glob_match pattern) (listdir fs d))
          else [])"

definition path_key :: "pypath \<Rightarrow> string list" where
  \<comment> \<open>paths are ordered as the lists of their root and parts\<close>
  "path_key p = root p # parts p"

section \<open>The archive: \<open>save_schema\<close>\<close>

datatype event = Printed string | Globbed pypath string | Opened pypath

definition schemas_dir :: pypath where
  \<comment> \<open>\<open>Path("schemas")\<close>\<close>
  "schemas_dir = path_of ''schemas''"

definition schema_filename :: "string \<Rightarrow> string" where
  \<comment> \<open>\<open>f"{tool_name}_schema.json"\<close>\<close>
  "schema_filename tool_name = tool_name @ ''_schema.json''"

definition schema_filepath :: "string \<Rightarrow> pypath" where
  \<comment> \<open>\<open>self.schemas_dir / filename\<close>\<close>
  "schema_filepath tool_name = path_join schemas_dir (schema_filename tool_name)"

definition save_schema ::
  "pylib \<Rightarrow> filesystem \<Rightarrow> string \<Rightarrow> json \<Rightarrow> filesystem \<times> (pyexc + string list)" where
  \<comment> \<open>The file system afterwards, and the line printed or the exception raised.
      \<open>open(filepath, 'w')\<close> raises or creates or empties the file; \<open>json.dump\<close>
      writes into it and may raise after a part of the text is written: the file is
      closed with what was written.\<close>
  "save_schema lib fs tool_name schema_data =
     (let filepath = schema_filepath tool_name
      in case open_write fs filepath (fst (json_dump lib schema_data)) of
           Inl e \<Rightarrow> (fs, Inl e)
         | Inr fs' \<Rightarrow>
             (case snd (json_dump lib schema_data) of
                Some e \<Rightarrow> (fs', Inl e)
              | None \<Rightarrow>
                  (fs', Inr [''Saved '' @ tool_name @ '' schema to '' @ path_str filepath])))"

section \<open>The reporter: \<open>examine_schema_file\<close> and \<open>main\<close>\<close>

text \<open>
  A piece of the reporter prints lines and then either finishes or raises: it is the
  list of the texts given to \<open>print\<close>, in order, and the outcome. What was printed
  before an exception stays printed.
\<close>

type_synonym 'a action = "string list \<times> (pyexc + 'a)"

definition emit :: "string \<Rightarrow> unit action" where
  \<comment> \<open>\<open>print(s)\<close>\<close>
  "emit s = ([s], Inr ())"

definition no_op :: "unit action" where
  "no_op = ([], Inr ())"

definition attempt :: "pyexc + 'a \<Rightarrow> 'a action" where
  \<comment> \<open>an operation that prints nothing and may raise\<close>
  "attempt r = ([], r)"

definition and_then :: "'a action \<Rightarrow> ('a \<Rightarrow> 'b action) \<Rightarrow> 'b action" where
  \<comment> \<open>one statement after another: an exception ends the sequence\<close>
  "and_then m f =
     (case m of
        (out, Inl e) \<Rightarrow> (out, Inl e)
      | (out, Inr x) \<Rightarrow> (case f x of (out', r) \<Rightarrow> (out @ out', r)))"

definition summarize_message :: "(64 word \<Rightarrow> string) \<Rightarrow> nat \<Rightarrow> json \<Rightarrow> unit action" where
  \<comment> \<open>The body of the loop over the messages, for the message at index \<open>i\<close>. Only a
      dictionary has \<open>get\<close>: any other message raises \<open>AttributeError\<close> after the
      heading is printed.\<close>
  "summarize_message fr i message =
     and_then (emit (newline # ''Message '' @ dec_nat (i + 1) @ '':'')) (\<lambda>_.
     case message of
       JObj d \<Rightarrow>
         and_then (emit (''  Type: '' @ py_str fr (dict_get d ''type'' (JStr ''unknown'')))) (\<lambda>_.
         and_then (if dict_has d ''subtype''
                   then emit (''  Subtype: '' @ py_str fr (dict_get d ''subtype'' JNull))
                   else no_op) (\<lambda>_.
         if dict_get d ''type'' JNull = JStr ''system''
            \<and> dict_get d ''subtype'' JNull = JStr ''init'' then
           and_then (emit (''  Tools: '' @ py_str fr (dict_get d ''tools'' (JArr [])))) (\<lambda>_.
           and_then (emit (''  Model: '' @ py_str fr (dict_get d ''model'' (JStr ''unknown'')))) (\<lambda>_.
           emit (''  Permission Mode: ''
                 @ py_str fr (dict_get d ''permissionMode'' (JStr ''unknown'')))))
         else if dict_get d ''type'' JNull = JStr ''assistant'' then
           (if dict_has d ''message'' then
              and_then (attempt (py_get (dict_get d ''message'' JNull) ''content'' (JArr []))) (\<lambda>content.
              if py_bool content
              then emit (''  Content preview: '' @ take 200 (py_str fr content) @ ''...'')
              else no_op)
            else no_op)
         else if dict_get d ''type'' JNull = JStr ''result'' then
           and_then (emit (''  Is Error: '' @ py_str fr (dict_get d ''is_error'' (JBool True)))) (\<lambda>_.
           and_then (emit (''  Num Turns: '' @ py_str fr (dict_get d ''num_turns'' (JInt 0)))) (\<lambda>_.
           and_then (emit (''  Duration MS: '' @ py_str fr (dict_get d ''duration_ms'' (JInt 0)))) (\<lambda>_.
           if dict_has d ''result'' then
             and_then (attempt (py_slice_to 200 (dict_get d ''result'' JNull))) (\<lambda>r.
             emit (''  Result preview: '' @ py_str fr r @ ''...''))
           else no_op)))
         else no_op))
     | _ \<Rightarrow> attempt (Inl AttributeError))"

fun summarize_messages :: "(64 word \<Rightarrow> string) \<Rightarrow> nat \<Rightarrow> json list \<Rightarrow> unit action" where
  \<comment> \<open>\<open>for i, message in enumerate(...)\<close>, from index \<open>i\<close> on\<close>
  "summarize_messages fr i [] = no_op"
| "summarize_messages fr i (m # ms) =
     and_then (summarize_message fr i m) (\<lambda>_. summarize_messages fr (Suc i) ms)"

definition summarize_data :: "(64 word \<Rightarrow> string) \<Rightarrow> json \<Rightarrow> unit action" where
  \<comment> \<open>the \<open>try\<close> block of \<open>examine_schema_file\<close> after the file is decoded\<close>
  "summarize_data fr data =
     (case data of
        JObj d \<Rightarrow>
          and_then (emit (''Tool Name: '' @ py_str fr (dict_get d ''tool_name'' (JStr ''Unknown'')))) (\<lambda>_.
          and_then (emit (''Test Scenario: ''
                          @ py_str fr (dict_get d ''test_scenario'' (JStr ''Unknown'')))) (\<lambda>_.
          and_then (emit (''Success: '' @ py_str fr (dict_get d ''success'' (JBool False)))) (\<lambda>_.
          and_then (if py_bool (dict_get d ''stderr'' JNull)
                    then emit (''Stderr: '' @ py_str fr (dict_get d ''stderr'' JNull))
                    else no_op) (\<lambda>_.
          and_then (attempt (py_len (dict_get d ''messages'' (JArr [])))) (\<lambda>n.
          and_then (emit (newline # ''Number of messages: '' @ dec_nat n)) (\<lambda>_.
          and_then (attempt (py_iter (dict_get d ''messages'' (JArr [])))) (\<lambda>items.
          summarize_messages fr 0 items)))))))
      | _ \<Rightarrow> attempt (Inl AttributeError))"

definition load_json :: "pylib \<Rightarrow> filesystem \<Rightarrow> pypath \<Rightarrow> pyexc + json" where
  \<comment> \<open>\<open>with open(filepath, 'r') as f: data = json.load(f)\<close>\<close>
  "load_json lib fs filepath =
     (case read_file fs filepath of
        Inl e \<Rightarrow> Inl e
      | Inr text \<Rightarrow> json_loads lib text)"

definition error_reading :: "pylib \<Rightarrow> pypath \<Rightarrow> pyexc \<Rightarrow> string" where
  \<comment> \<open>\<open>f"Error reading {filepath}: {e}"\<close>\<close>
  "error_reading lib filepath e =
     ''Error reading '' @ path_str filepath @ '': '' @ exc_str lib e"

definition examine_schema_file :: "pylib \<Rightarrow> filesystem \<Rightarrow> pypath \<Rightarrow> event list" where
  \<comment> \<open>What the function does, in order: the heading, the file opened, the summary;
      \<open>except Exception\<close> turns an exception into one more printed line.\<close>
  "examine_schema_file lib fs filepath =
     map Printed [newline # replicate 60 (CHR ''=''),
                  ''Schema File: '' @ path_name filepath,
                  replicate 60 (CHR ''='')]
     @ [Opened filepath]
     @ (case load_json lib fs filepath of
          Inl e \<Rightarrow> [Printed (error_reading lib filepath e)]
        | Inr data \<Rightarrow>
            (case summarize_data (float_repr lib) data of
               (out, Inl e) \<Rightarrow> map Printed out @ [Printed (error_reading lib filepath e)]
             | (out, Inr _) \<Rightarrow> map Printed out))"

definition examine_schemas_main :: "pylib \<Rightarrow> filesystem \<Rightarrow> event list" where
  \<comment> \<open>\<open>main\<close> of the reporter\<close>
  "examine_schemas_main lib fs =
     (if \<not> path_exists fs schemas_dir then [Printed ''Schemas directory not found!'']
      else
        let schema_files = path_glob fs schemas_dir ''*_schema.json''
        in Globbed schemas_dir ''*_schema.json''
           # (if schema_files = [] then [Printed ''No schema files found!'']
              else Printed (''Found '' @ dec_nat (length schema_files) @ '' schema files:'')
                   # concat (map (examine_schema_file lib fs)
                               (sort_key path_key schema_files))))"

definition examine_schemas_script :: "pylib \<Rightarrow> filesystem \<Rightarrow> event list \<times> int" where
  \<comment> \<open>The script run as a program: \<open>main\<close> returns, no exception leaves it and
      \<open>sys.exit\<close> is not called, so the interpreter exits with status 0.\<close>
  "examine_schemas_script lib fs = (examine_schemas_main lib fs, 0)"

subsection \<open>The files a run of the reporter opens\<close>

fun opened :: "event list \<Rightarrow> pypath list" where
  \<comment> \<open>the files a trace opens, in order: one for each call of \<open>examine_schema_file\<close>\<close>
  "opened [] = []"
| "opened (Opened p # es) = p # opened es"
| "opened (e # es) = opened es"

section \<open>Evaluation of the models on concrete inputs\<close>

lemma replicate_eval: "replicate (numeral k) x = x # replicate (pred_numeral k) x"
  by (simp add: numeral_eq_Suc)

lemmas json_eval = reference_loads_def py_json_loads_def decode_tokens_def outside_model_def
  json_ws_def push_char_def push_outside_def string_token_def int_token_def float_token_def
  int_max_str_digits_def nesting_def py_dict_def dict_set_def dict_has_def scan_number_def
  number_sign_def int_part_def frac_part_def exp_part_def exp_sign_def is_digit_def
  digit_val_def nat_of_digits_def unescape_def hex4_def hex_val_def

lemmas text_eval = py_strip_def py_isspace_def py_split_def newline_def

lemmas run_eval = run_claude_command_def run_claude_command_try_def build_cmd_def
  py_getitem_def py_get_def dict_get_def reference_lib_def exc_text_def

definition scenario_stdout :: string where
  \<comment> \<open>a system line, a line that is not JSON, an empty line and a result line\<close>
  "scenario_stdout =
     ''{\"type\":\"system\",\"subtype\":\"init\"}'' @ [newline] @ ''not json'' @ [newline]
     @ [newline] @ ''{\"type\":\"result\",\"is_error\":false,\"num_turns\":2}'' @ [newline]"

definition scenario_messages :: "json list" where
  "scenario_messages =
     [JObj [(''type'', JStr ''system''), (''subtype'', JStr ''init'')],
      JObj [(''type'', JStr ''result''), (''is_error'', JBool False), (''num_turns'', JInt 2)]]"

definition digits_stdout :: string where
  \<comment> \<open>a line \<open>{}\<close> and a line of 4301 digits\<close>
  "digits_stdout = ''{}'' @ [newline] @ replicate 4301 (CHR ''1'')"

definition completed :: "int \<Rightarrow> string \<Rightarrow> string \<Rightarrow> subprocess" where
  \<comment> \<open>an environment in which the process runs and exits\<close>
  "completed rc out err = (\<lambda>cmd. Inr \<lparr>returncode = rc, stdout = out, stderr = err\<rparr>)"

definition launch_fails :: "pyexc \<Rightarrow> subprocess" where
  \<comment> \<open>an environment in which \<open>subprocess.run\<close> raises\<close>
  "launch_fails e = (\<lambda>cmd. Inl e)"

lemma scenario_lines:
  "nonblank_lines scenario_stdout
   = [''{\"type\":\"system\",\"subtype\":\"init\"}'', ''not json'',
      ''{\"type\":\"result\",\"is_error\":false,\"num_turns\":2}'']"
  by (simp add: nonblank_lines_def scenario_stdout_def text_eval)

lemma scenario_loads:
  "reference_loads ''{\"type\":\"system\",\"subtype\":\"init\"}''
     = Inr (JObj [(''type'', JStr ''system''), (''subtype'', JStr ''init'')])"
  "reference_loads ''not json'' = Inl JSONDecodeError"
  "reference_loads ''{\"type\":\"result\",\"is_error\":false,\"num_turns\":2}''
     = Inr (JObj [(''type'', JStr ''result''), (''is_error'', JBool False),
                  (''num_turns'', JInt 2)])"
  by (simp_all add: json_eval)

lemma empty_object_loads:
  "reference_loads ''{}'' = Inr (JObj [])"
  "reference_loads [CHR 0x0C, CHR ''{'', CHR ''}''] = Inl JSONDecodeError"
  by (simp_all add: json_eval)

lemma tokenize_digits:
  assumes "int_max_str_digits < n"
  shows "tokenize pf (replicate n (CHR ''1'')) = [TBigInt n]"
proof -
  obtain m where n: "n = Suc m" using assms by (cases n) auto
  have tw: "takeWhile is_digit (replicate m (CHR ''1'')) = replicate m (CHR ''1'')"
    by (simp add: takeWhile_replicate is_digit_def)
  have "scan_number pf (replicate n (CHR ''1'')) = Some (TBigInt n, [])"
    using assms
    by (simp add: n scan_number_def number_sign_def int_part_def tw is_digit_def
        frac_part_def exp_part_def int_token_def)
  then show ?thesis
    by (simp add: n json_ws_def)
qed

lemma digits_loads: "reference_loads (replicate 4301 (CHR ''1'')) = Inl ValueError"
  by (simp add: reference_loads_def py_json_loads_def decode_tokens_def tokenize_digits
      int_max_str_digits_def)

lemma strip_digits: "py_strip (replicate 4301 (CHR ''1'')) = replicate 4301 (CHR ''1'')"
  by (simp add: py_strip_def py_isspace_def dropWhile_replicate)

lemma split_acc_no_sep: "d \<notin> set s \<Longrightarrow> split_acc d cur s = [rev cur @ s]"
  by (induction s arbitrary: cur) auto

lemma digits_split:
  "py_split newline (py_strip digits_stdout) = [''{}'', replicate 4301 (CHR ''1'')]"
proof -
  have "py_strip digits_stdout = digits_stdout"
    by (simp add: digits_stdout_def py_strip_def py_isspace_def newline_def
        dropWhile_append3 dropWhile_replicate)
  moreover have "py_split newline digits_stdout = [''{}'', replicate 4301 (CHR ''1'')]"
    by (simp add: digits_stdout_def py_split_def newline_def split_acc_no_sep)
  ultimately show ?thesis by simp
qed

subsection \<open>File systems and records of the scenarios\<close>

definition no_archive_fs :: filesystem where
  \<comment> \<open>a working directory without a \<open>schemas\<close> directory\<close>
  "no_archive_fs = \<lparr>cwd = [''home''], dirs = [[''home'']], files = []\<rparr>"

definition archive_fs :: filesystem where
  \<comment> \<open>a working directory with an empty \<open>schemas\<close> directory\<close>
  "archive_fs = \<lparr>cwd = [''home''], dirs = [[''home''], [''home'', ''schemas'']], files = []\<rparr>"

definition nested_fs :: filesystem where
  \<comment> \<open>the \<open>schemas\<close> directory has the subdirectory \<open>a\<close>\<close>
  "nested_fs = \<lparr>cwd = [''home''],
                 dirs = [[''home''], [''home'', ''schemas''], [''home'', ''schemas'', ''a'']],
                 files = []\<rparr>"

definition stored :: "filesystem \<Rightarrow> path \<Rightarrow> string \<Rightarrow> filesystem" where
  \<comment> \<open>the file system with the one file \<open>t\<close>\<close>
  "stored fs t text = fs\<lparr>files := [(t, text)]\<rparr>"

definition sample_record :: json where
  "sample_record =
     JObj [(''tool_name'', JStr ''edit_tool''), (''test_scenario'', JStr ''edit''),
           (''success'', JBool True),
           (''messages'',
              JArr [JObj [(''type'', JStr ''result''), (''num_turns'', JInt 2),
                          (''result'', JStr [CHR ''a'', CHR 0x22, CHR 0x5C, CHR 0x0A, CHR 0xE9]),
                          (''usage'', JObj []), (''delta'', JInt (- 17)), (''id'', JNull)],
                    JArr [JBool False, JArr []]]),
           (''stderr'', JStr [])]"

definition init_message :: "(string \<times> json) list" where
  \<comment> \<open>a \<open>system\<close>/\<open>init\<close> message without tools, model and permission mode\<close>
  "init_message = [(''type'', JStr ''system''), (''subtype'', JStr ''init'')]"

definition bare_result_message :: "(string \<times> json) list" where
  \<comment> \<open>a \<open>result\<close> message with no other field\<close>
  "bare_result_message = [(''type'', JStr ''result'')]"

definition long_result_message :: "(string \<times> json) list" where
  \<comment> \<open>a \<open>result\<close> message whose result text has 250 characters\<close>
  "long_result_message =
     [(''type'', JStr ''result''), (''result'', JStr (replicate 250 (CHR ''x'')))]"

lemmas fs_eval = path_exists_def locate_def schemas_dir_def path_of_def py_split_def
  path_str_def is_directory_def is_file_def path_join_def schema_filepath_def
  schema_filename_def open_write_def save_schema_def read_file_def load_json_def
  listdir_def child_name_def path_glob_def path_child_def List.map_filter_simps path_name_def
  path_key_def

lemma digit_chars:
  "digit_char 0 = CHR ''0''" "digit_char 1 = CHR ''1''" "digit_char 2 = CHR ''2''"
  "digit_char 3 = CHR ''3''" "digit_char 4 = CHR ''4''" "digit_char 5 = CHR ''5''"
  "digit_char 6 = CHR ''6''" "digit_char 7 = CHR ''7''" "digit_char 8 = CHR ''8''"
  "digit_char 9 = CHR ''9''" "digit_char (Suc 0) = CHR ''1''"
  by code_simp+

lemma latin_char:
  "hex2 (CHR 0xE9) = ''e9''" "char_of (233 :: nat) = CHR 0xE9"
  by code_simp+

lemmas dumps_eval = latin_char reference_dump_def py_json_dumps_def json_string_def json_escape_char_def
  newline_indent_def dec_int_def dec_nat.simps digit_chars newline_def replicate_eval
  reference_float_repr_def int_max_str_digits_def

lemma sample_dumped:
  "json_dump reference_lib sample_record = (dumped reference_lib sample_record, None)"
  "json_dump reference_lib (JObj []) = (''{}'', None)"
  by (simp_all add: reference_lib_def sample_record_def dumped_def dumps_eval)


lemma sample_saved:
  "save_schema reference_lib archive_fs ''edit_tool'' sample_record
   = (stored archive_fs [''home'', ''schemas'', ''edit_tool_schema.json'']
        (dumped reference_lib sample_record),
      Inr [''Saved edit_tool schema to schemas/edit_tool_schema.json''])"
  by (simp add: archive_fs_def fs_eval stored_def sample_dumped)


section \<open>Properties of the capture runner\<close>

lemma parse_stream_decodes:
  assumes "\<forall>l \<in> set ls. py_strip l \<noteq> [] \<longrightarrow> \<not> aborts loads l"
  shows "parse_stream loads acc ls
         = Inr (acc @ List.map_filter (decoded loads) (filter (\<lambda>l. py_strip l \<noteq> []) ls))"
  using assms
  by (induction ls arbitrary: acc)
    (auto simp: List.map_filter_simps aborts_def decoded_def split: sum.splits)

lemma parse_stream_aborts:
  assumes "l \<in> set ls" and "py_strip l \<noteq> []" and "aborts loads l"
  shows "\<exists>e. parse_stream loads acc ls = Inl e"
  using assms
  by (induction ls arbitrary: acc) (auto simp: aborts_def split: sum.splits)

lemma length_map_filter:
  "length (List.map_filter f xs) = length (filter (\<lambda>x. f x \<noteq> None) xs)"
  by (simp add: List.map_filter_def)

lemma run_claude_command_completed:
  assumes "subprocess_run (build_cmd prompt additional_args) = Inr result"
    and "\<forall>l \<in> set (nonblank_lines (stdout result)). \<not> aborts (json_loads lib) l"
  shows "run_claude_command lib subprocess_run prompt additional_args
         = JObj [(''success'', JBool (returncode result = 0)),
                 (''messages'', JArr (List.map_filter (decoded (json_loads lib))
                                       (nonblank_lines (stdout result)))),
                 (''stderr'', JStr (stderr result))]"
proof -
  have "\<forall>l \<in> set (py_split newline (py_strip (stdout result))).
          py_strip l \<noteq> [] \<longrightarrow> \<not> aborts (json_loads lib) l"
    using assms(2) by (simp add: nonblank_lines_def)
  from parse_stream_decodes [OF this, of "[]"] assms(1) show ?thesis
    by (simp add: run_claude_command_def run_claude_command_try_def nonblank_lines_def)
qed

lemma run_claude_command_decoder_raises:
  assumes "subprocess_run (build_cmd prompt additional_args) = Inr result"
    and "l \<in> set (nonblank_lines (stdout result))" and "aborts (json_loads lib) l"
  shows "\<exists>e. run_claude_command lib subprocess_run prompt additional_args
             = JObj [(''success'', JBool False), (''error'', JStr (exc_str lib e)),
                     (''messages'', JArr [])]"
proof -
  from assms(2) have "l \<in> set (py_split newline (py_strip (stdout result)))"
    and "py_strip l \<noteq> []"
    by (simp_all add: nonblank_lines_def)
  from parse_stream_aborts [OF this assms(3), of "[]"] assms(1) show ?thesis
    by (auto simp: run_claude_command_def run_claude_command_try_def)
qed

lemma scenario_runs:
  "\<forall>l \<in> set (nonblank_lines scenario_stdout). \<not> aborts (json_loads reference_lib) l"
  by (simp add: scenario_lines reference_lib_def aborts_def scenario_loads)

lemma scenario_decoded:
  "List.map_filter (decoded (json_loads reference_lib)) (nonblank_lines scenario_stdout)
   = scenario_messages"
  by (simp add: scenario_lines reference_lib_def decoded_def scenario_loads
      List.map_filter_simps scenario_messages_def)

text \<open>
  Claim C1, as amended. When the process completes and no line makes the decoder
  raise an exception other than \<open>JSONDecodeError\<close>, \<open>messages\<close> is exactly the
  sequence of values decoded from the lines of the output text after leading and
  trailing whitespace has been stripped from the text as a whole: blank lines are
  skipped, a line that fails to decode is dropped, every other line gives one
  message, in line order, and the length of \<open>messages\<close> is the number of non-blank
  lines that decode.
\<close>

theorem run_claude_command_messages:
  assumes "subprocess_run (build_cmd prompt additional_args) = Inr result"
    and "\<forall>l \<in> set (nonblank_lines (stdout result)). \<not> aborts (json_loads lib) l"
  shows "py_getitem (run_claude_command lib subprocess_run prompt additional_args) ''messages''
         = Inr (JArr (List.map_filter (decoded (json_loads lib))
                        (nonblank_lines (stdout result))))
       \<and> length (List.map_filter (decoded (json_loads lib)) (nonblank_lines (stdout result)))
         = length (filter (\<lambda>l. decoded (json_loads lib) l \<noteq> None)
                     (nonblank_lines (stdout result)))"
  using run_claude_command_completed [where subprocess_run = subprocess_run
      and prompt = prompt and additional_args = additional_args and lib = lib, OF assms]
  by (simp add: py_getitem_def length_map_filter)

theorem run_claude_command_messages_witness:
  "py_getitem (run_claude_command reference_lib (completed 0 scenario_stdout []) ''hi'' None)
     ''messages'' = Inr (JArr scenario_messages)
   \<and> length scenario_messages = 2"
proof -
  have h: "completed 0 scenario_stdout [] (build_cmd ''hi'' None)
           = Inr \<lparr>returncode = 0, stdout = scenario_stdout, stderr = []\<rparr>"
    by (simp add: completed_def)
  have ok: "\<forall>l \<in> set (nonblank_lines
                (stdout \<lparr>returncode = 0, stdout = scenario_stdout, stderr = []\<rparr>)).
              \<not> aborts (json_loads reference_lib) l"
    using scenario_runs by simp
  from run_claude_command_messages [where subprocess_run = "completed 0 scenario_stdout []"
      and prompt = "''hi''" and additional_args = None and lib = reference_lib, OF h ok]
  show ?thesis by (simp add: scenario_decoded scenario_messages_def)
qed

text \<open>
  The claim as stated speaks of the lines of the output text itself. The text that
  is a form feed followed by \<open>{}\<close> has one line, which is not valid JSON (a form feed
  is not JSON whitespace), yet \<open>messages\<close> holds one message: the form feed is
  stripped from the text before the line is decoded.
\<close>

theorem run_claude_command_messages_counterexample:
  "py_getitem (run_claude_command reference_lib
       (completed 0 [CHR 0x0C, CHR ''{'', CHR ''}''] []) ''hi'' None) ''messages''
     = Inr (JArr [JObj []])
   \<and> List.map_filter (decoded (json_loads reference_lib))
       (py_split newline [CHR 0x0C, CHR ''{'', CHR ''}'']) = []"
  by (simp add: run_eval completed_def text_eval List.map_filter_simps decoded_def
      empty_object_loads)

text \<open>
  Claim C2. The claim has \<open>success\<close> true exactly when the exit status is zero,
  however many lines fail to decode. The loop skips a line on \<open>JSONDecodeError\<close>
  only. On the output whose second line is an integer of 4301 digits the decoder
  raises \<open>ValueError\<close>; the process has ended with exit status 0, and the result is
  \<open>success = False\<close> with no messages, the line \<open>{}\<close> that did decode being lost
  as well.
\<close>

theorem run_claude_command_success_digit_limit:
  "py_getitem (run_claude_command reference_lib (completed 0 digits_stdout []) ''hi'' None)
     ''success'' = Inr (JBool False)
   \<and> py_getitem (run_claude_command reference_lib (completed 0 digits_stdout []) ''hi'' None)
       ''messages'' = Inr (JArr [])
   \<and> json_loads reference_lib (replicate 4301 (CHR ''1'')) = Inl ValueError"
proof -
  have "parse_stream reference_loads [] (py_split newline (py_strip digits_stdout))
        = Inl ValueError"
    by (simp add: digits_split strip_digits digits_loads empty_object_loads)
  then show ?thesis
    by (simp add: run_eval completed_def digits_loads)
qed

text \<open>
  Claim C3. The function returns a value on every input: an exception raised while the
  process is started or run is caught, and the result is then \<open>success = False\<close>, the
  text of the exception as \<open>error\<close>, and no messages.
\<close>

theorem run_claude_command_failure:
  assumes "subprocess_run (build_cmd prompt additional_args) = Inl e"
  shows "run_claude_command lib subprocess_run prompt additional_args
         = JObj [(''success'', JBool False), (''error'', JStr (exc_str lib e)),
                 (''messages'', JArr [])]"
  using assms by (simp add: run_claude_command_def run_claude_command_try_def)

theorem run_claude_command_failure_witness:
  "run_claude_command reference_lib (launch_fails (OSError ''No such file or directory''))
     ''hi'' (Some [''--model'', ''x''])
   = JObj [(''success'', JBool False), (''error'', JStr ''No such file or directory''),
           (''messages'', JArr [])]"
proof -
  have h: "launch_fails (OSError ''No such file or directory'')
             (build_cmd ''hi'' (Some [''--model'', ''x'']))
           = Inl (OSError ''No such file or directory'')"
    by (simp add: launch_fails_def)
  from run_claude_command_failure [where lib = reference_lib
      and subprocess_run = "launch_fails (OSError ''No such file or directory'')"
      and prompt = "''hi''" and additional_args = "Some [''--model'', ''x'']", OF h]
  show ?thesis by (simp add: reference_lib_def exc_text_def)
qed

text \<open>
  Claim C5, as amended. The result of a completed run in which no line makes the
  decoder raise an exception other than \<open>JSONDecodeError\<close> has the field \<open>stderr\<close>, a
  string: the error text of the process. The result returned when the process could
  not be run has no field \<open>stderr\<close>; it has the field \<open>error\<close> instead, and a reader
  that asks for \<open>stderr\<close> with the default \<open>""\<close>, as the callers do, gets the empty
  string.
\<close>

theorem run_claude_command_stderr:
  "(subprocess_run (build_cmd prompt additional_args) = Inr result
      \<and> (\<forall>l \<in> set (nonblank_lines (stdout result)). \<not> aborts (json_loads lib) l) \<longrightarrow>
      py_getitem (run_claude_command lib subprocess_run prompt additional_args) ''stderr''
        = Inr (JStr (stderr result)))
   \<and> (subprocess_run (build_cmd prompt additional_args) = Inl e \<longrightarrow>
      py_getitem (run_claude_command lib subprocess_run prompt additional_args) ''stderr''
        = Inl (KeyError ''stderr'')
      \<and> py_getitem (run_claude_command lib subprocess_run prompt additional_args) ''error''
        = Inr (JStr (exc_str lib e))
      \<and> py_get (run_claude_command lib subprocess_run prompt additional_args) ''stderr''
          (JStr []) = Inr (JStr []))"
proof -
  have "py_getitem (run_claude_command lib subprocess_run prompt additional_args) ''stderr''
        = Inr (JStr (stderr result))"
    if "subprocess_run (build_cmd prompt additional_args) = Inr result"
      and "\<forall>l \<in> set (nonblank_lines (stdout result)). \<not> aborts (json_loads lib) l"
    using run_claude_command_completed [where subprocess_run = subprocess_run
        and prompt = prompt and additional_args = additional_args and lib = lib, OF that]
    by (simp add: py_getitem_def)
  then show ?thesis
    by (simp add: run_claude_command_def run_claude_command_try_def py_getitem_def py_get_def
        dict_get_def)
qed

theorem run_claude_command_stderr_witness:
  "py_getitem (run_claude_command reference_lib (completed 1 scenario_stdout ''boom'') ''hi'' None)
     ''stderr'' = Inr (JStr ''boom'')
   \<and> py_get (run_claude_command reference_lib (launch_fails ValueError) ''hi'' None)
       ''stderr'' (JStr []) = Inr (JStr [])"
proof -
  have h1: "completed 1 scenario_stdout ''boom'' (build_cmd ''hi'' None)
           = Inr \<lparr>returncode = 1, stdout = scenario_stdout, stderr = ''boom''\<rparr>"
    by (simp add: completed_def)
  have h2: "launch_fails ValueError (build_cmd ''hi'' None) = Inl ValueError"
    by (simp add: launch_fails_def)
  from run_claude_command_stderr [of "completed 1 scenario_stdout ''boom''" "''hi''" None
      "\<lparr>returncode = 1, stdout = scenario_stdout, stderr = ''boom''\<rparr>" reference_lib ValueError]
    run_claude_command_stderr [of "launch_fails ValueError" "''hi''" None
      "\<lparr>returncode = 1, stdout = scenario_stdout, stderr = ''boom''\<rparr>" reference_lib ValueError]
    h1 h2 scenario_runs
  show ?thesis by simp
qed

theorem run_claude_command_stderr_counterexample:
  "py_getitem (run_claude_command reference_lib (launch_fails (OSError ''No such file''))
     ''hi'' None) ''stderr'' = Inl (KeyError ''stderr'')"
  by (simp add: run_eval launch_fails_def)

section \<open>Properties of the reporter's summary of a message\<close>

lemma and_then_emit: "and_then (emit s) f = (s # fst (f ()), snd (f ()))"
  by (simp add: and_then_def emit_def split: prod.splits)

lemma and_then_no_op: "and_then no_op f = f ()"
  by (simp add: and_then_def no_op_def split: prod.splits)

lemma and_then_attempt:
  "and_then (attempt (Inr x)) f = f x"
  "and_then (attempt (Inl e)) f = ([], Inl e)"
  by (simp_all add: and_then_def attempt_def split: prod.splits)

lemma fst_emit: "fst (emit s) = [s]" "fst no_op = []"
  by (simp_all add: emit_def no_op_def)

lemmas action_simps = and_then_emit and_then_no_op and_then_attempt fst_emit

lemma dec_nat_0: "dec_nat 0 = ''0''"
  by code_simp

lemma py_str_simps:
  "py_str fr (JStr s) = s"
  "py_str fr (JBool True) = ''True''"
  "py_str fr (JInt 0) = ''0''"
  "py_str fr (JArr []) = ''[]''"
  by (simp_all add: py_str_def dec_int_def dec_nat_0)

lemma dict_get_absent: "\<not> dict_has d k \<Longrightarrow> dict_get d k dflt = dflt"
  by (simp add: dict_has_def dict_get_def)

lemma dict_get_present: "map_of d k = Some v \<Longrightarrow> dict_get d k dflt = v"
  by (simp add: dict_get_def)

lemma dict_has_present: "map_of d k = Some v \<Longrightarrow> dict_has d k"
  by (simp add: dict_has_def)

lemma dict_get_type:
  "dict_get d k JNull = JStr s \<Longrightarrow> dict_get d k dflt = JStr s"
  by (auto simp: dict_get_def split: option.splits)

text \<open>
  Claim C4, as amended. For a message whose type is \<open>system\<close> and whose subtype is
  \<open>init\<close>, the reporter prints the model identifier as \<open>unknown\<close> when \<open>model\<close> is
  absent and the permission mode as \<open>unknown\<close> when \<open>permissionMode\<close> is absent; the
  tool list, when \<open>tools\<close> is absent, is printed as the empty list \<open>[]\<close>.
\<close>

theorem summarize_init_message:
  assumes "dict_get d ''type'' JNull = JStr ''system''"
    and "dict_get d ''subtype'' JNull = JStr ''init''"
  shows "(\<not> dict_has d ''tools'' \<longrightarrow>
            ''  Tools: []'' \<in> set (fst (summarize_message fr i (JObj d))))
       \<and> (\<not> dict_has d ''model'' \<longrightarrow>
            ''  Model: unknown'' \<in> set (fst (summarize_message fr i (JObj d))))
       \<and> (\<not> dict_has d ''permissionMode'' \<longrightarrow>
            ''  Permission Mode: unknown'' \<in> set (fst (summarize_message fr i (JObj d))))"
  using assms
  by (simp add: summarize_message_def action_simps py_str_simps dict_get_absent)

theorem summarize_init_message_witness:
  "''  Tools: []'' \<in> set (fst (summarize_message (\<lambda>w. ''0.0'') 0 (JObj init_message)))
   \<and> ''  Model: unknown'' \<in> set (fst (summarize_message (\<lambda>w. ''0.0'') 0 (JObj init_message)))
   \<and> ''  Permission Mode: unknown''
       \<in> set (fst (summarize_message (\<lambda>w. ''0.0'') 0 (JObj init_message)))"
  using summarize_init_message [where d = init_message and fr = "\<lambda>w. ''0.0''" and i = 0]
  by (simp add: init_message_def dict_get_def dict_has_def)

text \<open>
  The claim as stated has the tool list default to the text \<open>unknown\<close> as well. For the
  message that has only its type and subtype, the lines printed are the following:
  the tool list is \<open>[]\<close>, and no line gives it as \<open>unknown\<close>.
\<close>

theorem summarize_init_message_counterexample:
  "fst (summarize_message (\<lambda>w. ''0.0'') 0 (JObj init_message))
     = [newline # ''Message 1:'', ''  Type: system'', ''  Subtype: init'', ''  Tools: []'',
        ''  Model: unknown'', ''  Permission Mode: unknown'']
   \<and> ''  Tools: unknown'' \<notin> set (fst (summarize_message (\<lambda>w. ''0.0'') 0 (JObj init_message)))"
  by (simp add: summarize_message_def action_simps init_message_def dict_get_def dict_has_def
      py_str_def dec_nat.simps digit_chars)

text \<open>
  Claim C8. For a message whose type is \<open>result\<close>, the reporter prints the error flag
  as \<open>True\<close> when \<open>is_error\<close> is absent, the number of turns as \<open>0\<close> when \<open>num_turns\<close>
  is absent and the duration as \<open>0\<close> when \<open>duration_ms\<close> is absent. When \<open>result\<close> is
  present and is a text, one preview line is printed: the first 200 characters of the
  text, followed by \<open>...\<close>. When \<open>result\<close> is absent, no preview line is printed.
\<close>

theorem summarize_result_message:
  assumes "dict_get d ''type'' JNull = JStr ''result''"
  shows "(\<not> dict_has d ''is_error'' \<longrightarrow>
            ''  Is Error: True'' \<in> set (fst (summarize_message fr i (JObj d))))
       \<and> (\<not> dict_has d ''num_turns'' \<longrightarrow>
            ''  Num Turns: 0'' \<in> set (fst (summarize_message fr i (JObj d))))
       \<and> (\<not> dict_has d ''duration_ms'' \<longrightarrow>
            ''  Duration MS: 0'' \<in> set (fst (summarize_message fr i (JObj d))))
       \<and> (\<forall>s. map_of d ''result'' = Some (JStr s) \<longrightarrow>
            filter (prefix ''  Result preview: '') (fst (summarize_message fr i (JObj d)))
              = [''  Result preview: '' @ take 200 s @ ''...''])
       \<and> (\<not> dict_has d ''result'' \<longrightarrow>
            filter (prefix ''  Result preview: '') (fst (summarize_message fr i (JObj d))) = [])"
proof -
  have ty: "dict_get d ''type'' (JStr ''unknown'') = JStr ''result''"
    using assms by (rule dict_get_type)
  show ?thesis
    using assms ty
    by (simp add: summarize_message_def action_simps py_str_simps newline_def py_slice_to_def
        dict_get_absent dict_get_present dict_has_present)
qed

theorem summarize_result_message_witness:
  "''  Is Error: True''
     \<in> set (fst (summarize_message (\<lambda>w. ''0.0'') 0 (JObj bare_result_message)))
   \<and> ''  Num Turns: 0''
       \<in> set (fst (summarize_message (\<lambda>w. ''0.0'') 0 (JObj bare_result_message)))
   \<and> ''  Duration MS: 0''
       \<in> set (fst (summarize_message (\<lambda>w. ''0.0'') 0 (JObj bare_result_message)))
   \<and> filter (prefix ''  Result preview: '')
       (fst (summarize_message (\<lambda>w. ''0.0'') 0 (JObj bare_result_message))) = []
   \<and> filter (prefix ''  Result preview: '')
       (fst (summarize_message (\<lambda>w. ''0.0'') 0 (JObj long_result_message)))
     = [''  Result preview: '' @ replicate 200 (CHR ''x'') @ ''...'']"
  using summarize_result_message [where d = bare_result_message and fr = "\<lambda>w. ''0.0''" and i = 0]
    summarize_result_message [where d = long_result_message and fr = "\<lambda>w. ''0.0''" and i = 0]
  by (simp add: bare_result_message_def long_result_message_def dict_get_def dict_has_def)

section \<open>Properties of the reporter's \<open>main\<close>\<close>

lemma opened_append: "opened (xs @ ys) = opened xs @ opened ys"
  by (induction xs rule: opened.induct) simp_all

lemma opened_Printed: "opened (map Printed xs) = []"
  by (induction xs) simp_all

lemma opened_examine_schema_file: "opened (examine_schema_file lib fs p) = [p]"
  by (simp add: examine_schema_file_def opened_append opened_Printed
      split: sum.splits prod.splits)

lemma opened_concat:
  "opened (concat (map (examine_schema_file lib fs) ps)) = ps"
  by (induction ps) (simp_all add: opened_append opened_examine_schema_file)

lemma opened_main:
  "opened (examine_schemas_main lib fs)
   = (if path_exists fs schemas_dir
      then sort_key path_key (path_glob fs schemas_dir ''*_schema.json'') else [])"
  by (simp add: examine_schemas_main_def Let_def opened_concat)

text \<open>
  Claim C9. When the \<open>schemas\<close> directory does not exist, the reporter prints the one
  line \<open>Schemas directory not found!\<close>, scans no directory, opens no file, and the
  program ends with exit status 0.
\<close>

theorem examine_schemas_missing_directory:
  assumes "\<not> path_exists fs schemas_dir"
  shows "examine_schemas_script lib fs = ([Printed ''Schemas directory not found!''], 0)
       \<and> (\<forall>p pattern. Globbed p pattern \<notin> set (fst (examine_schemas_script lib fs)))
       \<and> opened (fst (examine_schemas_script lib fs)) = []"
  using assms by (simp add: examine_schemas_script_def examine_schemas_main_def)

theorem examine_schemas_missing_directory_witness:
  "examine_schemas_script reference_lib no_archive_fs
     = ([Printed ''Schemas directory not found!''], 0)"
proof -
  have h: "\<not> path_exists no_archive_fs schemas_dir"
    by (simp add: no_archive_fs_def fs_eval)
  from examine_schemas_missing_directory [OF h, of reference_lib] show ?thesis by simp
qed

section \<open>Properties of the archive\<close>



lemma open_write_Inr:
  assumes "open_write fs p text = Inr fs'"
  obtains t where "locate fs p = Inr t" and "\<not> is_directory fs t"
    and "fs' = fs\<lparr>files := AList.update t text (files fs)\<rparr>"
  using assms by (auto simp: open_write_def split: sum.splits if_splits)


lemma save_schema_Inr:
  assumes "save_schema lib fs tool_name schema_data = (fs', Inr out)"
  shows "open_write fs (schema_filepath tool_name) (dumped lib schema_data) = Inr fs'"
  using assms
  by (auto simp: save_schema_def dumped_def Let_def split: sum.splits option.splits)






section \<open>The names the archive writes and the reporter reads\<close>

lemma schemas_dir_eq: "schemas_dir = PyPath [] [''schemas'']"
  by (simp add: schemas_dir_def path_of_def py_split_def)

lemma path_of_name:
  assumes "CHR ''/'' \<notin> set s" and "s \<noteq> []" and "s \<noteq> ''.''"
  shows "path_of s = PyPath [] [s]"
proof -
  obtain c cs where s: "s = c # cs" using assms(2) by (cases s) auto
  then have "c \<noteq> CHR ''/''" using assms(1) by auto
  then have "takeWhile (\<lambda>c. c = CHR ''/'') s = []" by (simp add: s)
  then show ?thesis
    using assms by (simp add: path_of_def py_split_def split_acc_no_sep)
qed

lemma schema_filepath_eq:
  assumes "CHR ''/'' \<notin> set tool_name"
  shows "schema_filepath tool_name = PyPath [] [''schemas'', schema_filename tool_name]"
proof -
  have "length (schema_filename tool_name) \<noteq> length ''.''"
    by (simp add: schema_filename_def)
  then have "schema_filename tool_name \<noteq> ''.''" by metis
  moreover have "schema_filename tool_name \<noteq> []" by (simp add: schema_filename_def)
  moreover have "CHR ''/'' \<notin> set (schema_filename tool_name)"
    using assms by (simp add: schema_filename_def)
  ultimately have "path_of (schema_filename tool_name) = PyPath [] [schema_filename tool_name]"
    by (simp add: path_of_name)
  then show ?thesis by (simp add: schema_filepath_def path_join_def schemas_dir_eq)
qed

lemma glob_star_append:
  "glob_match ps ys \<Longrightarrow> glob_match (CHR ''*'' # ps) (xs @ ys)"
proof (induction xs)
  case Nil
  then show ?case by (cases ys) simp_all
next
  case (Cons x xs)
  then show ?case by simp
qed

lemma glob_schema_filename: "glob_match ''*_schema.json'' (schema_filename tool_name)"
  unfolding schema_filename_def by (rule glob_star_append) simp

lemma locate_schemas_dir: "locate fs schemas_dir = Inr (cwd fs @ [''schemas''])"
  by (simp add: schemas_dir_eq locate_def path_str_def)

lemma locate_in_schemas:
  assumes "locate fs (PyPath [] [''schemas'', n]) = Inr t" and "n \<noteq> ''..''"
  shows "is_directory fs (cwd fs @ [''schemas'']) \<and> t = cwd fs @ [''schemas'', n]"
  using assms by (auto simp: locate_def Let_def split: if_splits sum.splits)

lemma set_map_filter: "set (List.map_filter f xs) = {y. \<exists>x \<in> set xs. f x = Some y}"
  by (force simp: List.map_filter_def)

lemma append_last_le:
  fixes a b :: "'a :: linorder list"
  shows "pre @ [a] \<le> pre @ [b] \<longleftrightarrow> a \<le> b"
  by (induction pre) (auto simp: le_less)

lemma path_name_child: "path_name (path_child p n) = n"
  by (cases "parts p") (simp_all add: path_name_def path_child_def)

lemma sorted_children:
  assumes "sorted (map path_key ps)" and "set ps \<subseteq> path_child p ` N"
  shows "sorted (map path_name ps)"
proof -
  have key: "path_key q = (root p # parts p) @ [path_name q]" if "q \<in> set ps" for q
  proof -
    from that assms(2) obtain n where "q = path_child p n" by auto
    then show ?thesis by (simp add: path_key_def path_name_child) (simp add: path_child_def)
  qed
  have "sorted_wrt (\<lambda>x y. path_key x \<le> path_key y) ps"
    using assms(1) by (simp add: sorted_map)
  then have "sorted_wrt (\<lambda>x y. path_name x \<le> path_name y) ps"
    by (rule sorted_wrt_mono_rel [rotated]) (simp add: key append_last_le)
  then show ?thesis by (simp add: sorted_map)
qed

text \<open>
  Claim C10, as amended. The file name that \<open>save_schema\<close> forms from a tool name
  matches the pattern \<open>*_schema.json\<close> of the reporter. For a tool name without the
  character \<open>/\<close>, a record that was saved is among the files the reporter's scan of
  the \<open>schemas\<close> directory finds and is opened by the reporter, and the reporter
  opens the files it found in the sorted order of their names.
\<close>

theorem saved_schema_enumerated:
  assumes "CHR ''/'' \<notin> set tool_name"
    and "save_schema lib fs tool_name schema_data = (fs', Inr out)"
  shows "glob_match ''*_schema.json'' (schema_filename tool_name)
       \<and> schema_filepath tool_name \<in> set (path_glob fs' schemas_dir ''*_schema.json'')
       \<and> opened (examine_schemas_main lib fs')
           = sort_key path_key (path_glob fs' schemas_dir ''*_schema.json'')
       \<and> schema_filepath tool_name \<in> set (opened (examine_schemas_main lib fs'))
       \<and> sorted (map path_name (opened (examine_schemas_main lib fs')))"
proof -
  let ?n = "schema_filename tool_name"
  let ?d = "cwd fs @ [''schemas'']"
  have p: "schema_filepath tool_name = PyPath [] [''schemas'', ?n]"
    using assms(1) by (rule schema_filepath_eq)
  have "length ?n \<noteq> length ''..''" by (simp add: schema_filename_def)
  then have n: "?n \<noteq> ''..''" by metis
  from save_schema_Inr [OF assms(2)] obtain t
    where t: "locate fs (schema_filepath tool_name) = Inr t"
      and fs': "fs' = fs\<lparr>files := AList.update t (dumped lib schema_data) (files fs)\<rparr>"
    by (rule open_write_Inr)
  from locate_in_schemas [OF t [unfolded p] n]
  have d: "is_directory fs ?d" and t_eq: "t = ?d @ [?n]" by simp_all
  have d': "is_directory fs' ?d" using d by (simp add: fs' is_directory_def)
  have l': "locate fs' schemas_dir = Inr ?d" by (simp add: locate_schemas_dir fs')
  have "map_of (files fs') t = Some (dumped lib schema_data)"
    by (simp add: fs' update_conv')
  then have "(t, dumped lib schema_data) \<in> set (files fs')" by (rule map_of_SomeD)
  moreover have "child_name ?d t = Some ?n"
    by (simp add: child_name_def t_eq butlast_append)
  ultimately have "?n \<in> set (listdir fs' ?d)"
    by (force simp: listdir_def set_map_filter)
  moreover have "path_child schemas_dir ?n = schema_filepath tool_name"
    by (simp add: p schemas_dir_eq path_child_def)
  ultimately have mem: "schema_filepath tool_name
      \<in> set (path_glob fs' schemas_dir ''*_schema.json'')"
    using l' d' glob_schema_filename [of tool_name] by (force simp: path_glob_def)
  have ex: "path_exists fs' schemas_dir" using l' d' by (simp add: path_exists_def)
  have op: "opened (examine_schemas_main lib fs')
            = sort_key path_key (path_glob fs' schemas_dir ''*_schema.json'')"
    using ex by (simp add: opened_main)
  have "set (path_glob fs' schemas_dir ''*_schema.json'')
        \<subseteq> path_child schemas_dir ` set (listdir fs' ?d)"
    using l' d' by (auto simp: path_glob_def)
  then have "sorted (map path_name (sort_key path_key
               (path_glob fs' schemas_dir ''*_schema.json'')))"
    by (intro sorted_children [where p = schemas_dir]) simp_all
  then show ?thesis
    using glob_schema_filename [of tool_name] mem op by simp
qed

theorem saved_schema_enumerated_witness:
  "glob_match ''*_schema.json'' (schema_filename ''edit_tool'')
   \<and> schema_filepath ''edit_tool''
       \<in> set (opened (examine_schemas_main reference_lib
           (stored archive_fs [''home'', ''schemas'', ''edit_tool_schema.json'']
              (dumped reference_lib sample_record))))"
proof -
  have h: "CHR ''/'' \<notin> set ''edit_tool''" by simp
  from saved_schema_enumerated [OF h sample_saved] show ?thesis by simp
qed

text \<open>
  The claim as stated speaks of every tool name. With the tool name \<open>a/b\<close> and a
  directory \<open>schemas/a\<close>, the record is saved as \<open>schemas/a/b_schema.json\<close>; the scan
  of \<open>schemas\<close> does not find it, and the reporter prints that there are no schema
  files.
\<close>

theorem saved_schema_enumerated_counterexample:
  "save_schema reference_lib nested_fs ''a/b'' (JObj [])
     = (stored nested_fs [''home'', ''schemas'', ''a'', ''b_schema.json''] ''{}'',
        Inr [''Saved a/b schema to schemas/a/b_schema.json''])
   \<and> examine_schemas_main reference_lib
         (stored nested_fs [''home'', ''schemas'', ''a'', ''b_schema.json''] ''{}'')
       = [Globbed schemas_dir ''*_schema.json'', Printed ''No schema files found!'']"
  by (simp add: nested_fs_def fs_eval stored_def examine_schemas_main_def sample_dumped)

end
